theory Spec2Isabelle
  imports Complex_Main
begin

section \<open>The whiteboard engine of MathBoard-AI\<close>

text \<open>
  This theory embeds the event handlers of \<^verbatim>\<open>src/components/Whiteboard.tsx\<close> and the
  data types of \<^verbatim>\<open>types.ts\<close>, and proves properties of them.

  Conventions of the embedding.
  \<^item> A JavaScript \<^verbatim>\<open>number\<close> is a \<^typ>\<open>real\<close>: rounding, \<^verbatim>\<open>NaN\<close> and the infinities of
    IEEE doubles are not represented. Where the source divides, the model divides; a
    theorem that depends on the value of a quotient assumes the divisor is not zero
    (JavaScript would produce an infinity or \<^verbatim>\<open>NaN\<close> there).
  \<^item> The component is a state machine. The state holds the props the host passes in
    (\<^verbatim>\<open>paths\<close>, \<^verbatim>\<open>viewport\<close>, \<^verbatim>\<open>readOnly\<close>), the canvas the ref points to (if any), and the
    five \<^verbatim>\<open>useState\<close> cells. Every handler runs on the state as it is after the previous
    event, that is, React has re-rendered between two events.
  \<^item> The host (\<^verbatim>\<open>App\<close>) answers \<^verbatim>\<open>setPaths\<close> and \<^verbatim>\<open>setViewport\<close> by storing the value in the
    active note and passing it back as the prop; the model stores it in the state. Every
    call that leaves the component is also appended to the log \<open>calls\<close>. The host changing
    a prop on its own (switching the active note) is not an event of the model.
\<close>

subsection \<open>Data model\<close>

record Point =
  px :: real
  py :: real
  pressure :: "real option"

datatype Tool = Pen | Eraser | Highlighter | Pan | Rectangle | Circle | Line

record DrawingPath =
  path_id :: string
  points :: "Point list"
  path_color :: string
  path_width :: real
  tool :: Tool
  isFilled :: "bool option"

record Viewport =
  vp_x :: real
  vp_y :: real
  vp_scale :: real

text \<open>The canvas element: the left and top of its bounding rectangle, and its
  \<^verbatim>\<open>width\<close> and \<^verbatim>\<open>height\<close> attributes.\<close>

record Canvas =
  rect_left :: real
  rect_top :: real
  canvas_width :: real
  canvas_height :: real

record PointerEvent =
  clientX :: real
  clientY :: real
  ev_pressure :: real
  buttons :: nat
  movementX :: real
  movementY :: real
  pointerId :: nat

text \<open>A wheel event, with the left and top of the bounding rectangle of its
  \<^verbatim>\<open>currentTarget\<close> (the outer \<^verbatim>\<open>div\<close>).\<close>

record WheelEvent =
  deltaY :: real
  wheel_clientX :: real
  wheel_clientY :: real
  target_left :: real
  target_top :: real

text \<open>What leaves the component: the three callbacks \<^verbatim>\<open>App\<close> hands to
  \<^verbatim>\<open><Whiteboard>\<close> (\<^verbatim>\<open>setPaths\<close>, \<^verbatim>\<open>setViewport\<close>, \<^verbatim>\<open>onCapture\<close>), and the two pointer-capture
  calls on the event's target.\<close>

datatype Call =
    SetPaths "DrawingPath list"
  | SetViewport Viewport
  | OnCapture string
  | SetPointerCapture nat
  | ReleasePointerCapture nat

record WhiteboardState =
  paths :: "DrawingPath list"
  viewport :: Viewport
  readOnly :: bool
  canvas :: "Canvas option"
  isDrawing :: bool
  currentTool :: Tool
  color :: string
  width :: real
  currentPath :: "DrawingPath option"
  calls :: "Call list"

text \<open>The state of a freshly mounted component (the \<^verbatim>\<open>useState\<close> initial values).\<close>

definition mount :: "DrawingPath list \<Rightarrow> Viewport \<Rightarrow> bool \<Rightarrow> Canvas option \<Rightarrow> WhiteboardState" where
  "mount ps v ro cv =
     \<lparr>paths = ps, viewport = v, readOnly = ro, canvas = cv,
      isDrawing = False, currentTool = Pen, color = ''#000000'', width = 2,
      currentPath = None, calls = []\<rparr>"

text \<open>A path whose anchor \<^verbatim>\<open>points[0]\<close> is \<^verbatim>\<open>undefined\<close> makes \<^verbatim>\<open>drawPath\<close> raise a
  \<^verbatim>\<open>TypeError\<close> at the next render.\<close>

datatype Error = UndefinedAnchor

subsection \<open>The host's setters\<close>

definition setPaths :: "DrawingPath list \<Rightarrow> WhiteboardState \<Rightarrow> WhiteboardState" where
  "setPaths ps s = s\<lparr>paths := ps, calls := calls s @ [SetPaths ps]\<rparr>"

definition setViewport :: "Viewport \<Rightarrow> WhiteboardState \<Rightarrow> WhiteboardState" where
  "setViewport v s = s\<lparr>viewport := v, calls := calls s @ [SetViewport v]\<rparr>"

subsection \<open>Undo and clear\<close>

definition handleUndo :: "WhiteboardState \<Rightarrow> WhiteboardState" where
  "handleUndo s =
     (if length (paths s) > 0 then setPaths (butlast (paths s)) s else s)"

text \<open>The argument is the answer of \<^verbatim>\<open>window.confirm\<close>.\<close>

definition handleClear :: "bool \<Rightarrow> WhiteboardState \<Rightarrow> WhiteboardState" where
  "handleClear confirmed s = (if confirmed then setPaths [] s else s)"

subsection \<open>Drawing\<close>

definition getCanvasPoint :: "PointerEvent \<Rightarrow> WhiteboardState \<Rightarrow> Point" where
  "getCanvasPoint e s =
     (case canvas s of
        None \<Rightarrow> \<lparr>px = 0, py = 0, pressure = None\<rparr>
      | Some c \<Rightarrow>
          \<lparr>px = (clientX e - rect_left c - vp_x (viewport s)) / vp_scale (viewport s),
           py = (clientY e - rect_top c - vp_y (viewport s)) / vp_scale (viewport s),
           pressure = Some (ev_pressure e)\<rparr>)"

text \<open>\<^verbatim>\<open>Date.now().toString()\<close>: the clock reading in decimal.\<close>

fun decimal :: "nat \<Rightarrow> string" where
  "decimal n =
     (if n < 10 then [char_of (48 + n)]
      else decimal (n div 10) @ [char_of (48 + n mod 10)])"

declare decimal.simps [simp del]

text \<open>The second argument is the reading of \<^verbatim>\<open>Date.now()\<close>.\<close>

definition startDrawing :: "PointerEvent \<Rightarrow> nat \<Rightarrow> WhiteboardState \<Rightarrow> WhiteboardState" where
  "startDrawing e now s =
     (if readOnly s then s
      else if currentTool s = Pan then s
      else
        let point = getCanvasPoint e s in
        s\<lparr>isDrawing := True,
          currentPath := Some
            \<lparr>path_id = decimal now,
             points = [point],
             path_color =
               (if currentTool s = Eraser then ''#ffffff''
                else if currentTool s = Highlighter then color s @ ''50''
                else color s),
             path_width =
               (if currentTool s = Eraser then 20
                else if currentTool s = Highlighter then 15
                else width s),
             tool = currentTool s,
             isFilled = None\<rparr>,
          calls := calls s @ [SetPointerCapture (pointerId e)]\<rparr>)"

definition draw :: "PointerEvent \<Rightarrow> WhiteboardState \<Rightarrow> Error + WhiteboardState" where
  "draw e s =
     (if \<not> isDrawing s \<or> currentPath s = None then
        (if currentTool s = Pan \<and> buttons e = 1 then
           Inr (setViewport
                  ((viewport s)\<lparr>vp_x := vp_x (viewport s) + movementX e,
                                 vp_y := vp_y (viewport s) + movementY e\<rparr>) s)
         else Inr s)
      else
        let point = getCanvasPoint e s in
        if currentTool s \<in> set [Pen, Eraser, Highlighter] then
          (case currentPath s of
             None \<Rightarrow> Inr s
           | Some prev \<Rightarrow>
               Inr (s\<lparr>currentPath := Some (prev\<lparr>points := points prev @ [point]\<rparr>)\<rparr>))
        else
          (case currentPath s of
             None \<Rightarrow> Inr s
           | Some prev \<Rightarrow>
               (case points prev of
                  [] \<Rightarrow> Inl UndefinedAnchor
                | p0 # _ \<Rightarrow>
                    Inr (s\<lparr>currentPath := Some (prev\<lparr>points := [p0, point]\<rparr>)\<rparr>))))"

definition stopDrawing :: "PointerEvent \<Rightarrow> WhiteboardState \<Rightarrow> WhiteboardState" where
  "stopDrawing e s =
     (if \<not> isDrawing s then s
      else
        let s1 = s\<lparr>isDrawing := False,
                   calls := calls s @ [ReleasePointerCapture (pointerId e)]\<rparr> in
        (case currentPath s of
           None \<Rightarrow> s1
         | Some p \<Rightarrow> (setPaths (paths s @ [p]) s1)\<lparr>currentPath := None\<rparr>))"

subsection \<open>Zoom\<close>

definition handleWheel :: "WheelEvent \<Rightarrow> WhiteboardState \<Rightarrow> WhiteboardState" where
  "handleWheel e s =
     (let zoomIntensity = 0.1;
          direction = - sgn (deltaY e);
          delta = direction * zoomIntensity;
          newScale = min (max 0.1 (vp_scale (viewport s) * (1 + delta))) 5;
          mouseX = wheel_clientX e - target_left e;
          mouseY = wheel_clientY e - target_top e;
          worldX = (mouseX - vp_x (viewport s)) / vp_scale (viewport s);
          worldY = (mouseY - vp_y (viewport s)) / vp_scale (viewport s);
          newX = mouseX - worldX * newScale;
          newY = mouseY - worldY * newScale
      in setViewport \<lparr>vp_x = newX, vp_y = newY, vp_scale = newScale\<rparr> s)"

definition manualZoom :: "real \<Rightarrow> WhiteboardState \<Rightarrow> WhiteboardState" where
  "manualZoom delta s =
     (let newScale = min (max 0.1 (vp_scale (viewport s) + delta)) 5 in
      case canvas s of
        Some c \<Rightarrow>
          (let centerX = canvas_width c / 2;
               centerY = canvas_height c / 2;
               worldX = (centerX - vp_x (viewport s)) / vp_scale (viewport s);
               worldY = (centerY - vp_y (viewport s)) / vp_scale (viewport s);
               newX = centerX - worldX * newScale;
               newY = centerY - worldY * newScale
           in setViewport \<lparr>vp_x = newX, vp_y = newY, vp_scale = newScale\<rparr> s)
      | None \<Rightarrow> setViewport ((viewport s)\<lparr>vp_scale := newScale\<rparr>) s)"

text \<open>The first argument is \<^verbatim>\<open>parseFloat(e.target.value)\<close>, for a value that parses to a
  number.\<close>

definition handleSliderZoom :: "real \<Rightarrow> WhiteboardState \<Rightarrow> WhiteboardState" where
  "handleSliderZoom newScale s =
     (case canvas s of
        Some c \<Rightarrow>
          (let centerX = canvas_width c / 2;
               centerY = canvas_height c / 2;
               worldX = (centerX - vp_x (viewport s)) / vp_scale (viewport s);
               worldY = (centerY - vp_y (viewport s)) / vp_scale (viewport s);
               newX = centerX - worldX * newScale;
               newY = centerY - worldY * newScale
           in setViewport \<lparr>vp_x = newX, vp_y = newY, vp_scale = newScale\<rparr> s)
      | None \<Rightarrow> setViewport ((viewport s)\<lparr>vp_scale := newScale\<rparr>) s)"

subsection \<open>The events the component's JSX binds\<close>

datatype Event =
    PointerDown PointerEvent nat
  | PointerMove PointerEvent
  | PointerUp PointerEvent
  | PointerLeave PointerEvent
  | Wheel WheelEvent
  | UndoClick
  | ClearClick bool
  | ToolClick Tool
  | ColorChange string
  | WidthChange real
  | ZoomOutClick
  | ZoomInClick
  | SliderChange real

fun step :: "Event \<Rightarrow> WhiteboardState \<Rightarrow> Error + WhiteboardState" where
  "step (PointerDown e now) s = Inr (startDrawing e now s)"
| "step (PointerMove e) s = draw e s"
| "step (PointerUp e) s = Inr (stopDrawing e s)"
| "step (PointerLeave e) s = Inr (stopDrawing e s)"
| "step (Wheel e) s = Inr (handleWheel e s)"
| "step UndoClick s = Inr (handleUndo s)"
| "step (ClearClick confirmed) s = Inr (handleClear confirmed s)"
| "step (ToolClick t) s = Inr (s\<lparr>currentTool := t\<rparr>)"
| "step (ColorChange c) s = Inr (s\<lparr>color := c\<rparr>)"
| "step (WidthChange w) s = Inr (s\<lparr>width := w\<rparr>)"
| "step ZoomOutClick s = Inr (manualZoom (- 0.25) s)"
| "step ZoomInClick s = Inr (manualZoom 0.25 s)"
| "step (SliderChange v) s = Inr (handleSliderZoom v s)"

text \<open>A sequence of events; an error ends the run, as the failed render unmounts the
  component.\<close>

fun run :: "Event list \<Rightarrow> WhiteboardState \<Rightarrow> Error + WhiteboardState" where
  "run [] s = Inr s"
| "run (ev # evs) s = (case step ev s of Inl err \<Rightarrow> Inl err | Inr s' \<Rightarrow> run evs s')"

text \<open>The in-progress path, when there is one, has its anchor point.\<close>

definition seeded :: "WhiteboardState \<Rightarrow> bool" where
  "seeded s = (case currentPath s of None \<Rightarrow> True | Some p \<Rightarrow> points p \<noteq> [])"

section \<open>Properties\<close>

subsection \<open>Undo\<close>

text \<open>
  Claim C4. Undo removes exactly the last committed stroke and leaves the earlier strokes
  as they were, in their order (a log of three strokes becomes its first two); on the
  empty log undo changes nothing, calls nothing and raises nothing (the handler is a
  total function whose result on the empty log is the state it was given).
\<close>

theorem handleUndo_removes_last:
  "paths (handleUndo (s\<lparr>paths := ps @ [p]\<rparr>)) = ps
   \<and> paths (handleUndo (s\<lparr>paths := [p1, p2, p3]\<rparr>)) = [p1, p2]
   \<and> handleUndo (s\<lparr>paths := []\<rparr>) = s\<lparr>paths := []\<rparr>"
  by (simp add: handleUndo_def setPaths_def)

theorem handleUndo_removes_last_witness:
  "paths (handleUndo ((mount [] \<lparr>vp_x = 0, vp_y = 0, vp_scale = 1\<rparr> False None)
       \<lparr>paths :=
          [\<lparr>path_id = ''1'', points = [\<lparr>px = 0, py = 0, pressure = None\<rparr>],
            path_color = ''#000000'', path_width = 2, tool = Pen, isFilled = None\<rparr>,
           \<lparr>path_id = ''2'', points = [\<lparr>px = 1, py = 1, pressure = None\<rparr>],
            path_color = ''#ffffff'', path_width = 20, tool = Eraser, isFilled = None\<rparr>,
           \<lparr>path_id = ''3'', points = [\<lparr>px = 2, py = 2, pressure = None\<rparr>],
            path_color = ''#000000'', path_width = 2, tool = Line, isFilled = None\<rparr>]\<rparr>))
   = [\<lparr>path_id = ''1'', points = [\<lparr>px = 0, py = 0, pressure = None\<rparr>],
       path_color = ''#000000'', path_width = 2, tool = Pen, isFilled = None\<rparr>,
      \<lparr>path_id = ''2'', points = [\<lparr>px = 1, py = 1, pressure = None\<rparr>],
       path_color = ''#ffffff'', path_width = 20, tool = Eraser, isFilled = None\<rparr>]
   \<and> handleUndo (mount [] \<lparr>vp_x = 0, vp_y = 0, vp_scale = 1\<rparr> False None)
     = mount [] \<lparr>vp_x = 0, vp_y = 0, vp_scale = 1\<rparr> False None"
  using handleUndo_removes_last
    [where s = "mount [] \<lparr>vp_x = 0, vp_y = 0, vp_scale = 1\<rparr> False None"
       and ps = "[]"
       and p = "\<lparr>path_id = ''1'', points = [\<lparr>px = 0, py = 0, pressure = None\<rparr>],
          path_color = ''#000000'', path_width = 2, tool = Pen, isFilled = None\<rparr>"
       and ?p1.0 = "\<lparr>path_id = ''1'', points = [\<lparr>px = 0, py = 0, pressure = None\<rparr>],
          path_color = ''#000000'', path_width = 2, tool = Pen, isFilled = None\<rparr>"
       and ?p2.0 = "\<lparr>path_id = ''2'', points = [\<lparr>px = 1, py = 1, pressure = None\<rparr>],
          path_color = ''#ffffff'', path_width = 20, tool = Eraser, isFilled = None\<rparr>"
       and ?p3.0 = "\<lparr>path_id = ''3'', points = [\<lparr>px = 2, py = 2, pressure = None\<rparr>],
          path_color = ''#000000'', path_width = 2, tool = Line, isFilled = None\<rparr>"]
  by (simp add: mount_def)

subsection \<open>Zoom\<close>

lemma handleWheel_viewport:
  "viewport (handleWheel e s) =
     \<lparr>vp_x = (wheel_clientX e - target_left e)
             - (wheel_clientX e - target_left e - vp_x (viewport s)) / vp_scale (viewport s)
               * min (max 0.1 (vp_scale (viewport s) * (1 + - sgn (deltaY e) * 0.1))) 5,
      vp_y = (wheel_clientY e - target_top e)
             - (wheel_clientY e - target_top e - vp_y (viewport s)) / vp_scale (viewport s)
               * min (max 0.1 (vp_scale (viewport s) * (1 + - sgn (deltaY e) * 0.1))) 5,
      vp_scale = min (max 0.1 (vp_scale (viewport s) * (1 + - sgn (deltaY e) * 0.1))) 5\<rparr>"
  by (simp add: handleWheel_def setViewport_def Let_def)

lemma manualZoom_viewport:
  "canvas s = Some c \<Longrightarrow>
   viewport (manualZoom d s) =
     \<lparr>vp_x = canvas_width c / 2
             - (canvas_width c / 2 - vp_x (viewport s)) / vp_scale (viewport s)
               * min (max 0.1 (vp_scale (viewport s) + d)) 5,
      vp_y = canvas_height c / 2
             - (canvas_height c / 2 - vp_y (viewport s)) / vp_scale (viewport s)
               * min (max 0.1 (vp_scale (viewport s) + d)) 5,
      vp_scale = min (max 0.1 (vp_scale (viewport s) + d)) 5\<rparr>"
  by (simp add: manualZoom_def setViewport_def Let_def)

lemma handleSliderZoom_viewport:
  "canvas s = Some c \<Longrightarrow>
   viewport (handleSliderZoom v s) =
     \<lparr>vp_x = canvas_width c / 2
             - (canvas_width c / 2 - vp_x (viewport s)) / vp_scale (viewport s) * v,
      vp_y = canvas_height c / 2
             - (canvas_height c / 2 - vp_y (viewport s)) / vp_scale (viewport s) * v,
      vp_scale = v\<rparr>"
  by (simp add: handleSliderZoom_def setViewport_def Let_def)

text \<open>The arithmetic of zoom-at-point: with the offset recomputed for the new scale, the
  anchor \<open>a\<close> shows the logical coordinate it showed before.\<close>

lemma anchor_kept:
  fixes a x c c' :: real
  assumes "c' \<noteq> 0"
  shows "(a - (a - (a - x) / c * c')) / c' = (a - x) / c"
  using assms by simp

lemma anchor_same_scale:
  fixes a x c :: real
  assumes "c \<noteq> 0"
  shows "a - (a - x) / c * c = x"
  using assms by simp

lemma clamp_bounds:
  fixes r :: real
  shows "0.1 \<le> min (max 0.1 r) 5" and "min (max 0.1 r) 5 \<le> 5"
  by simp_all

lemma clamp_pos:
  fixes r :: real
  shows "min (max 0.1 r) 5 \<noteq> 0"
  using clamp_bounds(1) [of r] by auto




lemma wheel_scale_at_max:
  fixes c d :: real
  assumes "c = 5" "d < 0"
  shows "min (max 0.1 (c * (1 + - sgn d * 0.1))) 5 = c"
  using assms by (simp add: sgn_real_def)

lemma wheel_scale_at_min:
  fixes c d :: real
  assumes "c = 0.1" "d > 0"
  shows "min (max 0.1 (c * (1 + - sgn d * 0.1))) 5 = c"
  using assms by (simp add: sgn_real_def)



text \<open>
  Claim C3. Zoom-at-point keeps the logical point under the anchor. For the wheel the
  anchor is the pointer position relative to the event's target, for the buttons and the
  slider it is the centre of the canvas. The logical coordinate under a screen coordinate
  \<open>a\<close> is \<open>(a - offset) / scale\<close>, as the handlers compute \<^verbatim>\<open>worldX\<close> and \<^verbatim>\<open>worldY\<close>. The old
  scale and the slider's new scale are not zero (the clamped scales of the wheel and of the
  buttons never are).
\<close>

theorem zoom_at_point_keeps_anchor:
  assumes "vp_scale (viewport s) \<noteq> 0" and "canvas s = Some c" and "v \<noteq> 0"
  shows
    "((wheel_clientX e - target_left e) - vp_x (viewport (handleWheel e s)))
        / vp_scale (viewport (handleWheel e s))
      = ((wheel_clientX e - target_left e) - vp_x (viewport s)) / vp_scale (viewport s)
     \<and> ((wheel_clientY e - target_top e) - vp_y (viewport (handleWheel e s)))
        / vp_scale (viewport (handleWheel e s))
      = ((wheel_clientY e - target_top e) - vp_y (viewport s)) / vp_scale (viewport s)
     \<and> (canvas_width c / 2 - vp_x (viewport (manualZoom d s)))
        / vp_scale (viewport (manualZoom d s))
      = (canvas_width c / 2 - vp_x (viewport s)) / vp_scale (viewport s)
     \<and> (canvas_height c / 2 - vp_y (viewport (manualZoom d s)))
        / vp_scale (viewport (manualZoom d s))
      = (canvas_height c / 2 - vp_y (viewport s)) / vp_scale (viewport s)
     \<and> (canvas_width c / 2 - vp_x (viewport (handleSliderZoom v s)))
        / vp_scale (viewport (handleSliderZoom v s))
      = (canvas_width c / 2 - vp_x (viewport s)) / vp_scale (viewport s)
     \<and> (canvas_height c / 2 - vp_y (viewport (handleSliderZoom v s)))
        / vp_scale (viewport (handleSliderZoom v s))
      = (canvas_height c / 2 - vp_y (viewport s)) / vp_scale (viewport s)"
  unfolding handleWheel_viewport manualZoom_viewport [OF assms(2)]
    handleSliderZoom_viewport [OF assms(2)] Viewport.simps
  using anchor_kept [OF clamp_pos] anchor_kept [OF assms(3)]
  by simp

theorem zoom_at_point_keeps_anchor_witness:
  "(100 - vp_x (viewport (handleWheel
        \<lparr>deltaY = - 1, wheel_clientX = 100, wheel_clientY = 50, target_left = 0, target_top = 0\<rparr>
        (mount [] \<lparr>vp_x = 100, vp_y = 50, vp_scale = 2\<rparr> False
           (Some \<lparr>rect_left = 0, rect_top = 0, canvas_width = 800, canvas_height = 600\<rparr>)))))
     / vp_scale (viewport (handleWheel
        \<lparr>deltaY = - 1, wheel_clientX = 100, wheel_clientY = 50, target_left = 0, target_top = 0\<rparr>
        (mount [] \<lparr>vp_x = 100, vp_y = 50, vp_scale = 2\<rparr> False
           (Some \<lparr>rect_left = 0, rect_top = 0, canvas_width = 800, canvas_height = 600\<rparr>))))
   = (0::real)"
  using zoom_at_point_keeps_anchor
    [of "mount [] \<lparr>vp_x = 100, vp_y = 50, vp_scale = 2\<rparr> False
           (Some \<lparr>rect_left = 0, rect_top = 0, canvas_width = 800, canvas_height = 600\<rparr>)"
        "\<lparr>rect_left = 0, rect_top = 0, canvas_width = 800, canvas_height = 600\<rparr>"
        3
        "\<lparr>deltaY = - 1, wheel_clientX = 100, wheel_clientY = 50, target_left = 0, target_top = 0\<rparr>"
        "0.25"]
  by (simp add: mount_def)

text \<open>
  Claim C10. At a clamp boundary, in the direction of the zoom, the wheel handler leaves
  the viewport as it is: at scale 5 zooming in (\<^verbatim>\<open>deltaY < 0\<close>) and at scale 0.1 zooming
  out (\<^verbatim>\<open>deltaY > 0\<close>) the new scale is the old one and the recomputed offsets are the old
  offsets. Over the reals the equality is exact.
\<close>

theorem handleWheel_fixed_at_boundary:
  assumes "(vp_scale (viewport s) = 5 \<and> deltaY e < 0)
           \<or> (vp_scale (viewport s) = 0.1 \<and> deltaY e > 0)"
  shows "viewport (handleWheel e s) = viewport s"
proof -
  let ?c = "vp_scale (viewport s)"
  have sc: "min (max 0.1 (?c * (1 + - sgn (deltaY e) * 0.1))) 5 = ?c"
    using assms wheel_scale_at_max wheel_scale_at_min by blast
  have nz: "?c \<noteq> 0"
    using assms by auto
  show ?thesis
    unfolding handleWheel_viewport sc anchor_same_scale [OF nz]
    by simp
qed

theorem handleWheel_fixed_at_boundary_witness:
  "viewport (handleWheel
      \<lparr>deltaY = - 3, wheel_clientX = 40, wheel_clientY = 70, target_left = 8, target_top = 9\<rparr>
      (mount [] \<lparr>vp_x = 12, vp_y = - 7, vp_scale = 5\<rparr> False None))
   = \<lparr>vp_x = 12, vp_y = - 7, vp_scale = 5\<rparr>
   \<and> viewport (handleWheel
      \<lparr>deltaY = 2, wheel_clientX = 40, wheel_clientY = 70, target_left = 8, target_top = 9\<rparr>
      (mount [] \<lparr>vp_x = 12, vp_y = - 7, vp_scale = 0.1\<rparr> False None))
   = \<lparr>vp_x = 12, vp_y = - 7, vp_scale = 0.1\<rparr>"
  using handleWheel_fixed_at_boundary
    [of "mount [] \<lparr>vp_x = 12, vp_y = - 7, vp_scale = 5\<rparr> False None"
        "\<lparr>deltaY = - 3, wheel_clientX = 40, wheel_clientY = 70, target_left = 8, target_top = 9\<rparr>"]
    handleWheel_fixed_at_boundary
    [of "mount [] \<lparr>vp_x = 12, vp_y = - 7, vp_scale = 0.1\<rparr> False None"
        "\<lparr>deltaY = 2, wheel_clientX = 40, wheel_clientY = 70, target_left = 8, target_top = 9\<rparr>"]
  by (simp add: mount_def)


subsection \<open>Drawing\<close>

lemma getCanvasPoint_same:
  "canvas t = canvas s \<Longrightarrow> viewport t = viewport s \<Longrightarrow> getCanvasPoint e t = getCanvasPoint e s"
  by (simp add: getCanvasPoint_def split: option.split)

lemma startDrawing_starts:
  assumes "\<not> readOnly s" and "currentTool s \<noteq> Pan"
  shows "isDrawing (startDrawing e now s)"
    and "\<exists>p. currentPath (startDrawing e now s) = Some p
           \<and> points p = [getCanvasPoint e s] \<and> tool p = currentTool s"
    and "paths (startDrawing e now s) = paths s"
    and "canvas (startDrawing e now s) = canvas s"
    and "viewport (startDrawing e now s) = viewport s"
    and "currentTool (startDrawing e now s) = currentTool s"
  using assms by (simp_all add: startDrawing_def Let_def)

lemma stopDrawing_commits:
  assumes "isDrawing t" and "currentPath t = Some p"
  shows "paths (stopDrawing e t) = paths t @ [p]"
    and "currentPath (stopDrawing e t) = None"
    and "\<not> isDrawing (stopDrawing e t)"
  using assms by (simp_all add: stopDrawing_def setPaths_def Let_def)

lemma draw_freehand:
  assumes "isDrawing t" and "currentPath t = Some prev"
    and "currentTool t \<in> {Pen, Eraser, Highlighter}"
  shows "draw e t = Inr (t\<lparr>currentPath := Some (prev\<lparr>points := points prev @ [getCanvasPoint e t]\<rparr>)\<rparr>)"
  using assms by (auto simp add: draw_def Let_def)

lemma draw_shape:
  assumes "isDrawing t" and "currentPath t = Some prev" and "points prev = a # rest"
    and "currentTool t \<in> {Rectangle, Circle, Line}"
  shows "draw e t = Inr (t\<lparr>currentPath := Some (prev\<lparr>points := [a, getCanvasPoint e t]\<rparr>)\<rparr>)"
  using assms by (auto simp add: draw_def Let_def)

lemma run_append:
  "run (xs @ ys) s = (case run xs s of Inl err \<Rightarrow> Inl err | Inr s' \<Rightarrow> run ys s')"
  by (induction xs arbitrary: s) (auto split: sum.splits)

text \<open>A run of moves with a freehand tool appends one sample per move.\<close>

lemma run_moves_freehand:
  assumes "isDrawing t" and "currentPath t = Some prev"
    and "currentTool t \<in> {Pen, Eraser, Highlighter}"
  shows "run (map PointerMove ms) t =
           Inr (t\<lparr>currentPath :=
                   Some (prev\<lparr>points := points prev @ map (\<lambda>e. getCanvasPoint e t) ms\<rparr>)\<rparr>)"
  using assms
proof (induction ms arbitrary: t prev)
  case Nil
  then show ?case by simp
next
  case (Cons m ms)
  let ?p = "prev\<lparr>points := points prev @ [getCanvasPoint m t]\<rparr>"
  let ?t = "t\<lparr>currentPath := Some ?p\<rparr>"
  have d: "draw m t = Inr ?t"
    using Cons.prems by (rule draw_freehand)
  have g: "\<And>e. getCanvasPoint e ?t = getCanvasPoint e t"
    by (rule getCanvasPoint_same) simp_all
  have "run (map PointerMove ms) ?t =
          Inr (?t\<lparr>currentPath :=
                  Some (?p\<lparr>points := points ?p @ map (\<lambda>e. getCanvasPoint e ?t) ms\<rparr>)\<rparr>)"
    using Cons.prems by (intro Cons.IH) simp_all
  then show ?case
    using d by (simp add: g)
qed

text \<open>A run of moves with a shape tool keeps the anchor and the last sample only.\<close>

lemma run_moves_shape:
  assumes "isDrawing t" and "currentPath t = Some prev" and "points prev = a # rest"
    and "currentTool t \<in> {Rectangle, Circle, Line}" and "ms \<noteq> []"
  shows "run (map PointerMove ms) t =
           Inr (t\<lparr>currentPath := Some (prev\<lparr>points := [a, getCanvasPoint (last ms) t]\<rparr>)\<rparr>)"
  using assms
proof (induction ms arbitrary: t prev rest)
  case Nil
  then show ?case by simp
next
  case (Cons m ms)
  let ?p = "prev\<lparr>points := [a, getCanvasPoint m t]\<rparr>"
  let ?t = "t\<lparr>currentPath := Some ?p\<rparr>"
  have d: "draw m t = Inr ?t"
    using Cons.prems(1-4) by (rule draw_shape)
  have g: "\<And>e. getCanvasPoint e ?t = getCanvasPoint e t"
    by (rule getCanvasPoint_same) simp_all
  show ?case
  proof (cases "ms = []")
    case True
    then show ?thesis using d by simp
  next
    case False
    have "run (map PointerMove ms) ?t =
            Inr (?t\<lparr>currentPath := Some (?p\<lparr>points := [a, getCanvasPoint (last ms) ?t]\<rparr>)\<rparr>)"
      using Cons.prems False
      by (intro Cons.IH [where rest = "[getCanvasPoint m t]"]) simp_all
    then show ?thesis
      using d False by (simp add: g)
  qed
qed

text \<open>
  Claim C6. A pen stroke: pointer-down at \<open>e0\<close>, moves through \<open>ms\<close>, pointer-up. The
  stroke appended to the log has the samples of the pointer-down and of every move, in
  that order, each converted by \<^verbatim>\<open>getCanvasPoint\<close>: with a canvas, the client position
  less the canvas origin less the viewport offset, divided by the viewport scale.
\<close>

theorem pen_stroke_commits_samples:
  assumes "currentTool s = Pen" and "\<not> readOnly s" and "canvas s = Some c"
  shows "\<exists>s' p. run (PointerDown e0 now # map PointerMove ms @ [PointerUp eu]) s = Inr s'
           \<and> paths s' = paths s @ [p] \<and> tool p = Pen
           \<and> points p = map (\<lambda>e. getCanvasPoint e s) (e0 # ms)
           \<and> currentPath s' = None
           \<and> px (getCanvasPoint e s)
               = (clientX e - rect_left c - vp_x (viewport s)) / vp_scale (viewport s)
           \<and> py (getCanvasPoint e s)
               = (clientY e - rect_top c - vp_y (viewport s)) / vp_scale (viewport s)"
proof -
  let ?t = "startDrawing e0 now s"
  have np: "currentTool s \<noteq> Pan"
    using assms(1) by simp
  obtain p0 where p0: "currentPath ?t = Some p0" "points p0 = [getCanvasPoint e0 s]"
      "tool p0 = currentTool s"
    using startDrawing_starts(2) [OF assms(2) np] by blast
  have dr: "isDrawing ?t"
    using startDrawing_starts(1) [OF assms(2) np] .
  have tl: "currentTool ?t \<in> {Pen, Eraser, Highlighter}"
    using startDrawing_starts(6) [OF assms(2) np] assms(1) by simp
  have g: "\<And>e. getCanvasPoint e ?t = getCanvasPoint e s"
    using startDrawing_starts(4,5) [OF assms(2) np] by (rule getCanvasPoint_same)
  let ?p = "p0\<lparr>points := map (\<lambda>e. getCanvasPoint e s) (e0 # ms)\<rparr>"
  let ?t' = "?t\<lparr>currentPath := Some ?p\<rparr>"
  have mv: "run (map PointerMove ms) ?t = Inr ?t'"
    using run_moves_freehand [OF dr p0(1) tl, of ms] by (simp add: g p0(2))
  have rn: "run (PointerDown e0 now # map PointerMove ms @ [PointerUp eu]) s
              = Inr (stopDrawing eu ?t')"
    by (simp add: run_append mv)
  have st: "paths (stopDrawing eu ?t') = paths ?t' @ [?p]"
      "currentPath (stopDrawing eu ?t') = None"
    using stopDrawing_commits [of ?t' ?p eu] dr by simp_all
  have ps: "paths ?t' = paths s"
    using startDrawing_starts(3) [OF assms(2) np] by simp
  have cv: "px (getCanvasPoint e s)
               = (clientX e - rect_left c - vp_x (viewport s)) / vp_scale (viewport s)"
      "py (getCanvasPoint e s)
               = (clientY e - rect_top c - vp_y (viewport s)) / vp_scale (viewport s)"
    using assms(3) by (simp_all add: getCanvasPoint_def)
  show ?thesis
    using rn st ps p0(3) assms(1) cv by simp
qed

theorem pen_stroke_commits_samples_witness:
  "\<exists>s' p. run [PointerDown \<lparr>clientX = 0, clientY = 0, ev_pressure = 0.5, buttons = 1,
                                movementX = 0, movementY = 0, pointerId = 1\<rparr> 1700000000000,
                   PointerMove \<lparr>clientX = 10, clientY = 0, ev_pressure = 0.5, buttons = 1,
                                movementX = 10, movementY = 0, pointerId = 1\<rparr>,
                   PointerMove \<lparr>clientX = 10, clientY = 10, ev_pressure = 0.5, buttons = 1,
                                movementX = 0, movementY = 10, pointerId = 1\<rparr>,
                   PointerUp \<lparr>clientX = 10, clientY = 10, ev_pressure = 0, buttons = 0,
                              movementX = 0, movementY = 0, pointerId = 1\<rparr>]
              (mount [] \<lparr>vp_x = 0, vp_y = 0, vp_scale = 1\<rparr> False
                 (Some \<lparr>rect_left = 0, rect_top = 0, canvas_width = 800, canvas_height = 600\<rparr>))
            = Inr s'
     \<and> paths s' = [p] \<and> tool p = Pen
     \<and> points p = [\<lparr>px = 0, py = 0, pressure = Some 0.5\<rparr>,
                    \<lparr>px = 10, py = 0, pressure = Some 0.5\<rparr>,
                    \<lparr>px = 10, py = 10, pressure = Some 0.5\<rparr>]"
  using pen_stroke_commits_samples
    [of "mount [] \<lparr>vp_x = 0, vp_y = 0, vp_scale = 1\<rparr> False
           (Some \<lparr>rect_left = 0, rect_top = 0, canvas_width = 800, canvas_height = 600\<rparr>)"
        "\<lparr>rect_left = 0, rect_top = 0, canvas_width = 800, canvas_height = 600\<rparr>"
        "\<lparr>clientX = 0, clientY = 0, ev_pressure = 0.5, buttons = 1,
          movementX = 0, movementY = 0, pointerId = 1\<rparr>"
        1700000000000
        "[\<lparr>clientX = 10, clientY = 0, ev_pressure = 0.5, buttons = 1,
           movementX = 10, movementY = 0, pointerId = 1\<rparr>,
          \<lparr>clientX = 10, clientY = 10, ev_pressure = 0.5, buttons = 1,
           movementX = 0, movementY = 10, pointerId = 1\<rparr>]"
        "\<lparr>clientX = 10, clientY = 10, ev_pressure = 0, buttons = 0,
          movementX = 0, movementY = 0, pointerId = 1\<rparr>"
        "\<lparr>clientX = 0, clientY = 0, ev_pressure = 0.5, buttons = 1,
          movementX = 0, movementY = 0, pointerId = 1\<rparr>"]
  by (auto simp add: mount_def getCanvasPoint_def)

text \<open>
  Claim C5 says that a stroke drawn with a shape tool always commits the two points
  [P0, P1], for every sequence of moves. Two runs where it does not: a pointer-down and a
  pointer-up with the rectangle tool and no move between them commit the single point of
  the pointer-down; and \<^verbatim>\<open>draw\<close> tests the selected tool, not the tool of the stroke, so a
  rectangle stroke whose moves arrive after the pen has been selected keeps every sample.
\<close>

theorem shape_click_and_tool_switch_points:
  "map_sum id (map points \<circ> paths)
     (run [ToolClick Rectangle,
           PointerDown \<lparr>clientX = 0, clientY = 0, ev_pressure = 0.5, buttons = 1,
                        movementX = 0, movementY = 0, pointerId = 1\<rparr> 1700000000000,
           PointerUp \<lparr>clientX = 0, clientY = 0, ev_pressure = 0, buttons = 0,
                      movementX = 0, movementY = 0, pointerId = 1\<rparr>]
        (mount [] \<lparr>vp_x = 0, vp_y = 0, vp_scale = 1\<rparr> False
           (Some \<lparr>rect_left = 0, rect_top = 0, canvas_width = 800, canvas_height = 600\<rparr>)))
     = Inr [[\<lparr>px = 0, py = 0, pressure = Some 0.5\<rparr>]]
   \<and> map_sum id (map points \<circ> paths)
     (run [ToolClick Rectangle,
           PointerDown \<lparr>clientX = 0, clientY = 0, ev_pressure = 0.5, buttons = 1,
                        movementX = 0, movementY = 0, pointerId = 1\<rparr> 1700000000000,
           ToolClick Pen,
           PointerMove \<lparr>clientX = 10, clientY = 0, ev_pressure = 0.5, buttons = 1,
                        movementX = 10, movementY = 0, pointerId = 1\<rparr>,
           PointerMove \<lparr>clientX = 10, clientY = 10, ev_pressure = 0.5, buttons = 1,
                        movementX = 0, movementY = 10, pointerId = 1\<rparr>,
           PointerUp \<lparr>clientX = 10, clientY = 10, ev_pressure = 0, buttons = 0,
                      movementX = 0, movementY = 0, pointerId = 1\<rparr>]
        (mount [] \<lparr>vp_x = 0, vp_y = 0, vp_scale = 1\<rparr> False
           (Some \<lparr>rect_left = 0, rect_top = 0, canvas_width = 800, canvas_height = 600\<rparr>)))
     = Inr [[\<lparr>px = 0, py = 0, pressure = Some 0.5\<rparr>,
             \<lparr>px = 10, py = 0, pressure = Some 0.5\<rparr>,
             \<lparr>px = 10, py = 10, pressure = Some 0.5\<rparr>]]
   \<and> map_sum id (map tool \<circ> paths)
     (run [ToolClick Rectangle,
           PointerDown \<lparr>clientX = 0, clientY = 0, ev_pressure = 0.5, buttons = 1,
                        movementX = 0, movementY = 0, pointerId = 1\<rparr> 1700000000000,
           ToolClick Pen,
           PointerMove \<lparr>clientX = 10, clientY = 0, ev_pressure = 0.5, buttons = 1,
                        movementX = 10, movementY = 0, pointerId = 1\<rparr>,
           PointerMove \<lparr>clientX = 10, clientY = 10, ev_pressure = 0.5, buttons = 1,
                        movementX = 0, movementY = 10, pointerId = 1\<rparr>,
           PointerUp \<lparr>clientX = 10, clientY = 10, ev_pressure = 0, buttons = 0,
                      movementX = 0, movementY = 0, pointerId = 1\<rparr>]
        (mount [] \<lparr>vp_x = 0, vp_y = 0, vp_scale = 1\<rparr> False
           (Some \<lparr>rect_left = 0, rect_top = 0, canvas_width = 800, canvas_height = 600\<rparr>)))
     = Inr [Rectangle]"
  by (simp add: mount_def startDrawing_def draw_def stopDrawing_def setPaths_def
        getCanvasPoint_def Let_def)

text \<open>
  Claim C5, as the code has it. While a shape tool (rectangle, circle or line) is the
  selected tool, every move replaces the points of the in-progress stroke by its anchor
  and the sample of the move. So the stroke committed after a pointer-down at \<open>e0\<close> with a
  shape tool selected, the moves \<open>ms\<close> and a pointer-up has the sample of \<open>e0\<close> followed by
  the sample of the last move, however many moves there were; with no move at all it has
  the sample of \<open>e0\<close> only.
\<close>

theorem shape_stroke_keeps_anchor_and_last:
  assumes "currentTool s \<in> {Rectangle, Circle, Line}" and "\<not> readOnly s"
    and "isDrawing t" and "currentPath t = Some prev" and "points prev = a # rest"
    and "currentTool t \<in> {Rectangle, Circle, Line}"
  shows "draw e t = Inr (t\<lparr>currentPath := Some (prev\<lparr>points := [a, getCanvasPoint e t]\<rparr>)\<rparr>)
     \<and> (\<exists>s' p. run (PointerDown e0 now # map PointerMove ms @ [PointerUp eu]) s = Inr s'
           \<and> paths s' = paths s @ [p] \<and> tool p = currentTool s
           \<and> points p = getCanvasPoint e0 s
                            # (if ms = [] then [] else [getCanvasPoint (last ms) s])
           \<and> currentPath s' = None)"
proof -
  let ?t = "startDrawing e0 now s"
  have np: "currentTool s \<noteq> Pan"
    using assms(1) by auto
  obtain p0 where p0: "currentPath ?t = Some p0" "points p0 = [getCanvasPoint e0 s]"
      "tool p0 = currentTool s"
    using startDrawing_starts(2) [OF assms(2) np] by blast
  have dr: "isDrawing ?t"
    using startDrawing_starts(1) [OF assms(2) np] .
  have tl: "currentTool ?t \<in> {Rectangle, Circle, Line}"
    using startDrawing_starts(6) [OF assms(2) np] assms(1) by simp
  have g: "\<And>e. getCanvasPoint e ?t = getCanvasPoint e s"
    using startDrawing_starts(4,5) [OF assms(2) np] by (rule getCanvasPoint_same)
  let ?pts = "getCanvasPoint e0 s # (if ms = [] then [] else [getCanvasPoint (last ms) s])"
  have "\<exists>t' p. run (map PointerMove ms) ?t = Inr t' \<and> isDrawing t'
          \<and> currentPath t' = Some p \<and> paths t' = paths ?t
          \<and> points p = ?pts \<and> tool p = tool p0"
  proof (cases "ms = []")
    case True
    then show ?thesis
      using dr p0(1,2) by simp
  next
    case False
    show ?thesis
      using run_moves_shape [OF dr p0(1) p0(2) tl False] False dr by (simp add: g)
  qed
  then obtain t' p where t': "run (map PointerMove ms) ?t = Inr t'" "isDrawing t'"
      "currentPath t' = Some p" "paths t' = paths ?t" "points p = ?pts" "tool p = tool p0"
    by blast
  have rn: "run (PointerDown e0 now # map PointerMove ms @ [PointerUp eu]) s
              = Inr (stopDrawing eu t')"
    by (simp add: run_append t'(1))
  have st: "paths (stopDrawing eu t') = paths t' @ [p]"
      "currentPath (stopDrawing eu t') = None"
    using stopDrawing_commits [OF t'(2,3)] by simp_all
  have ps: "paths t' = paths s"
    using startDrawing_starts(3) [OF assms(2) np] t'(4) by simp
  have sq: "\<exists>s' p. run (PointerDown e0 now # map PointerMove ms @ [PointerUp eu]) s = Inr s'
           \<and> paths s' = paths s @ [p] \<and> tool p = currentTool s
           \<and> points p = ?pts
           \<and> currentPath s' = None"
    using rn st ps p0(3) t'(5,6) by auto
  show ?thesis
    using draw_shape [OF assms(3-6)] sq by blast
qed

theorem shape_stroke_keeps_anchor_and_last_witness:
  "draw \<lparr>clientX = 30, clientY = 40, ev_pressure = 0.5, buttons = 1,
          movementX = 5, movementY = 5, pointerId = 1\<rparr>
        \<lparr>paths = [], viewport = \<lparr>vp_x = 0, vp_y = 0, vp_scale = 2\<rparr>, readOnly = False,
         canvas = Some \<lparr>rect_left = 10, rect_top = 20, canvas_width = 800, canvas_height = 600\<rparr>,
         isDrawing = True, currentTool = Rectangle, color = ''#000000'', width = 2,
         currentPath = Some \<lparr>path_id = ''7'',
                              points = [\<lparr>px = 1, py = 1, pressure = Some 0.5\<rparr>,
                                        \<lparr>px = 4, py = 3, pressure = Some 0.5\<rparr>],
                              path_color = ''#000000'', path_width = 2, tool = Rectangle,
                              isFilled = None\<rparr>,
         calls = [SetPointerCapture 1]\<rparr>
     = Inr \<lparr>paths = [], viewport = \<lparr>vp_x = 0, vp_y = 0, vp_scale = 2\<rparr>, readOnly = False,
         canvas = Some \<lparr>rect_left = 10, rect_top = 20, canvas_width = 800, canvas_height = 600\<rparr>,
         isDrawing = True, currentTool = Rectangle, color = ''#000000'', width = 2,
         currentPath = Some \<lparr>path_id = ''7'',
                              points = [\<lparr>px = 1, py = 1, pressure = Some 0.5\<rparr>,
                                        \<lparr>px = 10, py = 10, pressure = Some 0.5\<rparr>],
                              path_color = ''#000000'', path_width = 2, tool = Rectangle,
                              isFilled = None\<rparr>,
         calls = [SetPointerCapture 1]\<rparr>
   \<and> (\<exists>s' p. run [PointerDown \<lparr>clientX = 0, clientY = 0, ev_pressure = 0.5, buttons = 1,
                                movementX = 0, movementY = 0, pointerId = 1\<rparr> 1700000000000,
                   PointerMove \<lparr>clientX = 10, clientY = 0, ev_pressure = 0.5, buttons = 1,
                                movementX = 10, movementY = 0, pointerId = 1\<rparr>,
                   PointerMove \<lparr>clientX = 10, clientY = 10, ev_pressure = 0.5, buttons = 1,
                                movementX = 0, movementY = 10, pointerId = 1\<rparr>,
                   PointerUp \<lparr>clientX = 10, clientY = 10, ev_pressure = 0, buttons = 0,
                              movementX = 0, movementY = 0, pointerId = 1\<rparr>]
              ((mount [] \<lparr>vp_x = 0, vp_y = 0, vp_scale = 1\<rparr> False
                 (Some \<lparr>rect_left = 0, rect_top = 0, canvas_width = 800, canvas_height = 600\<rparr>))
               \<lparr>currentTool := Rectangle\<rparr>)
            = Inr s'
     \<and> paths s' = [p] \<and> tool p = Rectangle
     \<and> points p = [\<lparr>px = 0, py = 0, pressure = Some 0.5\<rparr>,
                    \<lparr>px = 10, py = 10, pressure = Some 0.5\<rparr>])"
  using shape_stroke_keeps_anchor_and_last
    [where s = "(mount [] \<lparr>vp_x = 0, vp_y = 0, vp_scale = 1\<rparr> False
           (Some \<lparr>rect_left = 0, rect_top = 0, canvas_width = 800, canvas_height = 600\<rparr>))
         \<lparr>currentTool := Rectangle\<rparr>"
       and ms = "[\<lparr>clientX = 10, clientY = 0, ev_pressure = 0.5, buttons = 1,
           movementX = 10, movementY = 0, pointerId = 1\<rparr>,
          \<lparr>clientX = 10, clientY = 10, ev_pressure = 0.5, buttons = 1,
           movementX = 0, movementY = 10, pointerId = 1\<rparr>]"
       and t = "\<lparr>paths = [], viewport = \<lparr>vp_x = 0, vp_y = 0, vp_scale = 2\<rparr>, readOnly = False,
         canvas = Some \<lparr>rect_left = 10, rect_top = 20, canvas_width = 800, canvas_height = 600\<rparr>,
         isDrawing = True, currentTool = Rectangle, color = ''#000000'', width = 2,
         currentPath = Some \<lparr>path_id = ''7'',
                              points = [\<lparr>px = 1, py = 1, pressure = Some 0.5\<rparr>,
                                        \<lparr>px = 4, py = 3, pressure = Some 0.5\<rparr>],
                              path_color = ''#000000'', path_width = 2, tool = Rectangle,
                              isFilled = None\<rparr>,
         calls = [SetPointerCapture 1]\<rparr>"
       and prev = "\<lparr>path_id = ''7'',
          points = [\<lparr>px = 1, py = 1, pressure = Some 0.5\<rparr>,
                    \<lparr>px = 4, py = 3, pressure = Some 0.5\<rparr>],
          path_color = ''#000000'', path_width = 2, tool = Rectangle, isFilled = None\<rparr>"
       and a = "\<lparr>px = 1, py = 1, pressure = Some 0.5\<rparr>"
       and rest = "[\<lparr>px = 4, py = 3, pressure = Some 0.5\<rparr>]"
       and e = "\<lparr>clientX = 30, clientY = 40, ev_pressure = 0.5, buttons = 1,
          movementX = 5, movementY = 5, pointerId = 1\<rparr>"
       and ?e0.0 = "\<lparr>clientX = 0, clientY = 0, ev_pressure = 0.5, buttons = 1,
          movementX = 0, movementY = 0, pointerId = 1\<rparr>"
       and now = 1700000000000
       and eu = "\<lparr>clientX = 10, clientY = 10, ev_pressure = 0, buttons = 0,
          movementX = 0, movementY = 0, pointerId = 1\<rparr>"]
  by (auto simp add: mount_def getCanvasPoint_def)

subsection \<open>Panning\<close>

text \<open>
  Claim C7 says that every pointer-move with the pan tool active and the primary button
  held translates the viewport. The pan branch of \<^verbatim>\<open>draw\<close> is inside the test
  \<^verbatim>\<open>!isDrawing || !currentPath\<close>: when the pan tool is selected while a stroke is in
  progress, a move extends the stroke and the viewport stays where it is.
\<close>

theorem pan_move_during_stroke_keeps_viewport:
  "map_sum id currentTool
     (run [PointerDown \<lparr>clientX = 0, clientY = 0, ev_pressure = 0.5, buttons = 1,
                        movementX = 0, movementY = 0, pointerId = 1\<rparr> 1700000000000,
           ToolClick Pan]
        (mount [] \<lparr>vp_x = 0, vp_y = 0, vp_scale = 1\<rparr> False None)) = Inr Pan
   \<and> map_sum id viewport
     (run [PointerDown \<lparr>clientX = 0, clientY = 0, ev_pressure = 0.5, buttons = 1,
                        movementX = 0, movementY = 0, pointerId = 1\<rparr> 1700000000000,
           ToolClick Pan,
           PointerMove \<lparr>clientX = 5, clientY = 3, ev_pressure = 0.5, buttons = 1,
                        movementX = 5, movementY = 3, pointerId = 1\<rparr>]
        (mount [] \<lparr>vp_x = 0, vp_y = 0, vp_scale = 1\<rparr> False None))
     = Inr \<lparr>vp_x = 0, vp_y = 0, vp_scale = 1\<rparr>
   \<and> map_sum id viewport
     (run [PointerDown \<lparr>clientX = 0, clientY = 0, ev_pressure = 0.5, buttons = 1,
                        movementX = 0, movementY = 0, pointerId = 1\<rparr> 1700000000000,
           ToolClick Pan,
           PointerMove \<lparr>clientX = 5, clientY = 3, ev_pressure = 0.5, buttons = 1,
                        movementX = 5, movementY = 3, pointerId = 1\<rparr>]
        (mount [] \<lparr>vp_x = 0, vp_y = 0, vp_scale = 1\<rparr> False None))
     \<noteq> Inr \<lparr>vp_x = 0 + 5, vp_y = 0 + 3, vp_scale = 1\<rparr>"
  by (simp add: mount_def startDrawing_def draw_def getCanvasPoint_def Let_def)

text \<open>
  Claim C7, as the code has it. With no stroke in progress, a pointer-move with the pan
  tool and \<^verbatim>\<open>buttons === 1\<close> hands the host the viewport moved by exactly \<^verbatim>\<open>movementX\<close> and
  \<^verbatim>\<open>movementY\<close>, whatever the scale, and with the scale as it was; nothing else in the
  state changes.
\<close>

theorem pan_translates_viewport:
  assumes "currentTool s = Pan" and "buttons e = 1"
    and "\<not> isDrawing s \<or> currentPath s = None"
  shows "draw e s =
           Inr (setViewport \<lparr>vp_x = vp_x (viewport s) + movementX e,
                              vp_y = vp_y (viewport s) + movementY e,
                              vp_scale = vp_scale (viewport s)\<rparr> s)"
proof -
  have moved: "(viewport s)\<lparr>vp_x := vp_x (viewport s) + movementX e,
                     vp_y := vp_y (viewport s) + movementY e\<rparr>
          = \<lparr>vp_x = vp_x (viewport s) + movementX e,
             vp_y = vp_y (viewport s) + movementY e,
             vp_scale = vp_scale (viewport s)\<rparr>"
    by simp
  show ?thesis
    using assms by (auto simp add: draw_def moved)
qed

theorem pan_translates_viewport_witness:
  "draw \<lparr>clientX = 50, clientY = 60, ev_pressure = 0.5, buttons = 1,
          movementX = 5, movementY = - 3, pointerId = 1\<rparr>
        ((mount [] \<lparr>vp_x = 100, vp_y = 50, vp_scale = 2\<rparr> False None)\<lparr>currentTool := Pan\<rparr>)
     = Inr ((mount [] \<lparr>vp_x = 105, vp_y = 47, vp_scale = 2\<rparr> False None)
              \<lparr>currentTool := Pan,
               calls := [SetViewport \<lparr>vp_x = 105, vp_y = 47, vp_scale = 2\<rparr>]\<rparr>)"
  using pan_translates_viewport
    [of "(mount [] \<lparr>vp_x = 100, vp_y = 50, vp_scale = 2\<rparr> False None)\<lparr>currentTool := Pan\<rparr>"
        "\<lparr>clientX = 50, clientY = 60, ev_pressure = 0.5, buttons = 1,
          movementX = 5, movementY = - 3, pointerId = 1\<rparr>"]
  by (simp add: mount_def setViewport_def)

subsection \<open>Read-only mode\<close>

text \<open>
  Claim C8. In read-only mode a pointer-down returns the state it was given: no drawing
  state, no in-progress stroke, the same log and viewport, no call. The handlers of
  pointer-move (which pans) and of the wheel never read the flag: their result for either
  value of the flag is their result on the state as given, with the flag set.
\<close>

theorem readOnly_pointer_down_is_noop:
  assumes "readOnly s"
  shows "startDrawing e now s = s
     \<and> draw e' (s\<lparr>readOnly := b\<rparr>) = map_sum id (\<lambda>t. t\<lparr>readOnly := b\<rparr>) (draw e' s)
     \<and> handleWheel w (s\<lparr>readOnly := b\<rparr>) = (handleWheel w s)\<lparr>readOnly := b\<rparr>"
proof -
  have sd: "startDrawing e now s = s"
    using assms by (simp add: startDrawing_def)
  have gp: "getCanvasPoint e' (s\<lparr>readOnly := b\<rparr>) = getCanvasPoint e' s"
    by (rule getCanvasPoint_same) simp_all
  have dw: "draw e' (s\<lparr>readOnly := b\<rparr>) = map_sum id (\<lambda>t. t\<lparr>readOnly := b\<rparr>) (draw e' s)"
    by (simp add: draw_def gp setViewport_def Let_def split: option.split list.split)
  have hw: "handleWheel w (s\<lparr>readOnly := b\<rparr>) = (handleWheel w s)\<lparr>readOnly := b\<rparr>"
    by (simp add: handleWheel_def setViewport_def Let_def)
  show ?thesis
    using sd dw hw by simp
qed

theorem readOnly_pointer_down_is_noop_witness:
  "startDrawing \<lparr>clientX = 50, clientY = 60, ev_pressure = 0.5, buttons = 1,
                  movementX = 0, movementY = 0, pointerId = 1\<rparr> 1700000000000
        (mount [] \<lparr>vp_x = 100, vp_y = 50, vp_scale = 2\<rparr> True None)
     = mount [] \<lparr>vp_x = 100, vp_y = 50, vp_scale = 2\<rparr> True None
   \<and> viewport (handleWheel
        \<lparr>deltaY = - 1, wheel_clientX = 100, wheel_clientY = 50, target_left = 0, target_top = 0\<rparr>
        (mount [] \<lparr>vp_x = 100, vp_y = 50, vp_scale = 2\<rparr> True None))
     = viewport (handleWheel
        \<lparr>deltaY = - 1, wheel_clientX = 100, wheel_clientY = 50, target_left = 0, target_top = 0\<rparr>
        (mount [] \<lparr>vp_x = 100, vp_y = 50, vp_scale = 2\<rparr> False None))"
  using readOnly_pointer_down_is_noop
    [of "mount [] \<lparr>vp_x = 100, vp_y = 50, vp_scale = 2\<rparr> True None"
        "\<lparr>clientX = 50, clientY = 60, ev_pressure = 0.5, buttons = 1,
          movementX = 0, movementY = 0, pointerId = 1\<rparr>"
        1700000000000
        "\<lparr>clientX = 50, clientY = 60, ev_pressure = 0.5, buttons = 1,
          movementX = 0, movementY = 0, pointerId = 1\<rparr>"
        False
        "\<lparr>deltaY = - 1, wheel_clientX = 100, wheel_clientY = 50, target_left = 0, target_top = 0\<rparr>"]
  by (simp add: mount_def)

subsection \<open>Invariants of the event loop\<close>

lemma draw_seeded_case:
  assumes "seeded s"
  shows "case draw e s of Inl err \<Rightarrow> False | Inr s' \<Rightarrow> seeded s'"
  using assms
  by (auto simp add: draw_def seeded_def setViewport_def Let_def
        split: option.splits list.splits)

lemma draw_seeded:
  assumes "seeded s"
  shows "\<exists>s'. draw e s = Inr s' \<and> seeded s'"
  using draw_seeded_case [OF assms, of e] by (cases "draw e s") simp_all

lemma startDrawing_seeded:
  "seeded (startDrawing e now s)" if "seeded s"
  using that by (simp add: startDrawing_def seeded_def Let_def)

lemma stopDrawing_seeded:
  "seeded (stopDrawing e s)" if "seeded s"
  using that by (simp add: stopDrawing_def seeded_def setPaths_def Let_def split: option.splits)

lemma step_seeded:
  assumes "seeded s"
  shows "\<exists>s'. step ev s = Inr s' \<and> seeded s'"
proof (cases ev)
  case (PointerMove e)
  then show ?thesis using draw_seeded [OF assms, of e] by auto
next
  case (PointerDown e now)
  then show ?thesis using startDrawing_seeded [OF assms] by simp
next
  case (PointerUp e)
  then show ?thesis using stopDrawing_seeded [OF assms] by simp
next
  case (PointerLeave e)
  then show ?thesis using stopDrawing_seeded [OF assms] by simp
qed (use assms in \<open>simp_all add: seeded_def handleWheel_def handleUndo_def handleClear_def
      manualZoom_def handleSliderZoom_def setViewport_def setPaths_def Let_def
      split: option.splits\<close>)

text \<open>No handler calls \<^verbatim>\<open>onCapture\<close>.\<close>

lemma step_no_capture:
  assumes "step ev s = Inr s'" and "OnCapture d \<notin> set (calls s)"
  shows "OnCapture d \<notin> set (calls s')"
proof (cases ev)
  case (PointerMove e)
  then show ?thesis
    using assms
    by (auto simp add: draw_def setViewport_def Let_def split: option.splits list.splits if_splits)
qed (use assms in \<open>auto simp add: startDrawing_def stopDrawing_def handleWheel_def handleUndo_def
      handleClear_def manualZoom_def handleSliderZoom_def setViewport_def setPaths_def Let_def
      split: option.splits if_splits\<close>)

lemma run_seeded:
  assumes "seeded s"
  shows "\<exists>s'. run evs s = Inr s' \<and> seeded s'"
  using assms
proof (induction evs arbitrary: s)
  case Nil
  then show ?case by simp
next
  case (Cons ev evs)
  obtain s1 where s1: "step ev s = Inr s1" "seeded s1"
    using step_seeded [OF Cons.prems] by blast
  show ?case
    using Cons.IH [OF s1(2)] s1(1) by simp
qed

lemma run_no_capture:
  assumes "run evs s = Inr s'" and "OnCapture d \<notin> set (calls s)"
  shows "OnCapture d \<notin> set (calls s')"
  using assms
proof (induction evs arbitrary: s)
  case Nil
  then show ?case by simp
next
  case (Cons ev evs)
  then obtain s1 where s1: "step ev s = Inr s1" "run evs s1 = Inr s'"
    by (auto split: sum.splits)
  show ?case
    using Cons.IH [OF s1(2)] step_no_capture [OF s1(1) Cons.prems(2)] by blast
qed

lemma mount_seeded: "seeded (mount ps v ro cv)"
  by (simp add: seeded_def mount_def)

text \<open>
  Claim C9 says that for every tool other than pan a pointer-down directly followed by a
  pointer-up commits a stroke of one point. The first line of \<^verbatim>\<open>startDrawing\<close> returns
  when the engine is read-only: there the same two events, with the pen, leave the log
  as it was.
\<close>

theorem readOnly_click_commits_nothing:
  "map_sum id currentTool
     (run [PointerDown \<lparr>clientX = 30, clientY = 40, ev_pressure = 0.5, buttons = 1,
                        movementX = 0, movementY = 0, pointerId = 1\<rparr> 1700000000000,
           PointerUp \<lparr>clientX = 30, clientY = 40, ev_pressure = 0, buttons = 0,
                      movementX = 0, movementY = 0, pointerId = 1\<rparr>]
        (mount [] \<lparr>vp_x = 0, vp_y = 0, vp_scale = 2\<rparr> True
           (Some \<lparr>rect_left = 10, rect_top = 20, canvas_width = 800, canvas_height = 600\<rparr>)))
     = Inr Pen
   \<and> map_sum id paths
     (run [PointerDown \<lparr>clientX = 30, clientY = 40, ev_pressure = 0.5, buttons = 1,
                        movementX = 0, movementY = 0, pointerId = 1\<rparr> 1700000000000,
           PointerUp \<lparr>clientX = 30, clientY = 40, ev_pressure = 0, buttons = 0,
                      movementX = 0, movementY = 0, pointerId = 1\<rparr>]
        (mount [] \<lparr>vp_x = 0, vp_y = 0, vp_scale = 2\<rparr> True
           (Some \<lparr>rect_left = 10, rect_top = 20, canvas_width = 800, canvas_height = 600\<rparr>)))
     = Inr []"
  by (simp add: mount_def startDrawing_def stopDrawing_def)

text \<open>
  Claim C9, as the code has it. With a tool other than pan and the engine not read-only,
  a pointer-down directly followed by a pointer-up appends a stroke of exactly one point,
  the sample of the pointer-down. After any sequence of events on a freshly mounted
  component, a pointer-up either leaves the log as it is or appends one stroke, and that
  stroke has at least one point: no stroke without points is ever committed.
\<close>

theorem click_commits_single_point:
  assumes "\<not> readOnly s" and "currentTool s \<noteq> Pan"
  shows "(\<exists>s' p. run [PointerDown e now, PointerUp eu] s = Inr s'
            \<and> paths s' = paths s @ [p] \<and> points p = [getCanvasPoint e s]
            \<and> tool p = currentTool s \<and> currentPath s' = None \<and> \<not> isDrawing s')
     \<and> (\<exists>t. run evs (mount ps v ro cv) = Inr t
            \<and> (paths (stopDrawing eu t) = paths t
                 \<or> (\<exists>p. paths (stopDrawing eu t) = paths t @ [p] \<and> 1 \<le> length (points p))))"
proof -
  let ?t = "startDrawing e now s"
  obtain p0 where p0: "currentPath ?t = Some p0" "points p0 = [getCanvasPoint e s]"
      "tool p0 = currentTool s"
    using startDrawing_starts(2) [OF assms] by blast
  have dr: "isDrawing ?t"
    using startDrawing_starts(1) [OF assms] .
  have "run [PointerDown e now, PointerUp eu] s = Inr (stopDrawing eu ?t)"
    by simp
  moreover have "paths (stopDrawing eu ?t) = paths s @ [p0]"
    using stopDrawing_commits(1) [OF dr p0(1)] startDrawing_starts(3) [OF assms] by simp
  moreover have "currentPath (stopDrawing eu ?t) = None" "\<not> isDrawing (stopDrawing eu ?t)"
    using stopDrawing_commits(2,3) [OF dr p0(1)] by simp_all
  ultimately have click: "\<exists>s' p. run [PointerDown e now, PointerUp eu] s = Inr s'
            \<and> paths s' = paths s @ [p] \<and> points p = [getCanvasPoint e s]
            \<and> tool p = currentTool s \<and> currentPath s' = None \<and> \<not> isDrawing s'"
    using p0(2,3) by blast
  obtain t where t: "run evs (mount ps v ro cv) = Inr t" "seeded t"
    using run_seeded [OF mount_seeded] by blast
  have "paths (stopDrawing eu t) = paths t
          \<or> (\<exists>p. paths (stopDrawing eu t) = paths t @ [p] \<and> 1 \<le> length (points p))"
    using t(2)
    by (auto simp add: stopDrawing_def seeded_def setPaths_def Let_def Suc_le_eq
          split: option.splits)
  then show ?thesis
    using click t(1) by blast
qed

theorem click_commits_single_point_witness:
  "(\<exists>s' p. run [PointerDown \<lparr>clientX = 30, clientY = 40, ev_pressure = 0.5, buttons = 1,
                                movementX = 0, movementY = 0, pointerId = 1\<rparr> 1700000000000,
                   PointerUp \<lparr>clientX = 30, clientY = 40, ev_pressure = 0, buttons = 0,
                              movementX = 0, movementY = 0, pointerId = 1\<rparr>]
              (mount [] \<lparr>vp_x = 0, vp_y = 0, vp_scale = 2\<rparr> False
                 (Some \<lparr>rect_left = 10, rect_top = 20, canvas_width = 800, canvas_height = 600\<rparr>))
            = Inr s'
       \<and> paths s' = [p] \<and> points p = [\<lparr>px = 10, py = 10, pressure = Some 0.5\<rparr>]
       \<and> tool p = Pen)"
  using click_commits_single_point
    [of "mount [] \<lparr>vp_x = 0, vp_y = 0, vp_scale = 2\<rparr> False
           (Some \<lparr>rect_left = 10, rect_top = 20, canvas_width = 800, canvas_height = 600\<rparr>)"
        "\<lparr>clientX = 30, clientY = 40, ev_pressure = 0.5, buttons = 1,
          movementX = 0, movementY = 0, pointerId = 1\<rparr>"
        1700000000000
        "\<lparr>clientX = 30, clientY = 40, ev_pressure = 0, buttons = 0,
          movementX = 0, movementY = 0, pointerId = 1\<rparr>"
        "[]" "[]" "\<lparr>vp_x = 0, vp_y = 0, vp_scale = 2\<rparr>" False None]
  by (auto simp add: mount_def getCanvasPoint_def)

subsection \<open>Capture\<close>

text \<open>
  Claim C1, on the code. \<^verbatim>\<open>App\<close> passes \<^verbatim>\<open>onCapture\<close> to the whiteboard and forwards what it
  receives to the chat, but the whiteboard has no capture operation: its props do not
  declare \<^verbatim>\<open>onCapture\<close>, and after any sequence of the events it handles, on a freshly
  mounted component, the calls it has made contain no call of \<^verbatim>\<open>onCapture\<close>.
\<close>

theorem whiteboard_never_calls_onCapture:
  "\<exists>s'. run evs (mount ps v ro cv) = Inr s' \<and> (\<forall>d. OnCapture d \<notin> set (calls s'))"
proof -
  obtain s' where s': "run evs (mount ps v ro cv) = Inr s'"
    using run_seeded [OF mount_seeded] by blast
  have "OnCapture d \<notin> set (calls s')" for d
    using run_no_capture [OF s'] by (simp add: mount_def)
  then show ?thesis
    using s' by blast
qed

theorem whiteboard_never_calls_onCapture_witness:
  "\<exists>s'. run [PointerDown \<lparr>clientX = 30, clientY = 40, ev_pressure = 0.5, buttons = 1,
                              movementX = 0, movementY = 0, pointerId = 1\<rparr> 1700000000000,
                 PointerMove \<lparr>clientX = 35, clientY = 45, ev_pressure = 0.5, buttons = 1,
                              movementX = 5, movementY = 5, pointerId = 1\<rparr>,
                 PointerUp \<lparr>clientX = 35, clientY = 45, ev_pressure = 0, buttons = 0,
                            movementX = 0, movementY = 0, pointerId = 1\<rparr>]
            (mount [] \<lparr>vp_x = 0, vp_y = 0, vp_scale = 1\<rparr> False
               (Some \<lparr>rect_left = 0, rect_top = 0, canvas_width = 800, canvas_height = 600\<rparr>))
          = Inr s'
      \<and> length (calls s') = 3
      \<and> OnCapture ''data:image/png;base64,'' \<notin> set (calls s')"
  using whiteboard_never_calls_onCapture
    [of "[PointerDown \<lparr>clientX = 30, clientY = 40, ev_pressure = 0.5, buttons = 1,
                        movementX = 0, movementY = 0, pointerId = 1\<rparr> 1700000000000,
          PointerMove \<lparr>clientX = 35, clientY = 45, ev_pressure = 0.5, buttons = 1,
                       movementX = 5, movementY = 5, pointerId = 1\<rparr>,
          PointerUp \<lparr>clientX = 35, clientY = 45, ev_pressure = 0, buttons = 0,
                     movementX = 0, movementY = 0, pointerId = 1\<rparr>]"
        "[]" "\<lparr>vp_x = 0, vp_y = 0, vp_scale = 1\<rparr>" False
        "Some \<lparr>rect_left = 0, rect_top = 0, canvas_width = 800, canvas_height = 600\<rparr>"]
  by (auto simp add: mount_def startDrawing_def draw_def stopDrawing_def setPaths_def
        getCanvasPoint_def Let_def)

end
